theory Spec2Isabelle
  imports Main
begin

section \<open>The olccimport management command\<close>

text \<open>
  A shallow embedding of \<^verbatim>\<open>olcc/management/commands/olccimport.py\<close> (Python 2,
  Django). The row handed to \<^verbatim>\<open>product_from_row\<close> is a dictionary from field names
  to strings, the database is a pair of tables that is passed in and returned, and every
  exception of the source is a value of \<open>pyerror\<close> on the left of a sum.
\<close>

subsection \<open>Exceptions\<close>

datatype pyerror =
    AttributeError
  | TypeError
  | ValueError
  | OverflowError
  | UnboundLocalError
  | KeyError
  | IndexError
  | MultipleObjectsReturned
  | IntegrityError

subsection \<open>Rows\<close>

text \<open>
  \<^verbatim>\<open>row.get(k)\<close> is \<open>row k\<close>: \<open>None\<close> when the key is absent. Both importers
  build the values with \<^verbatim>\<open>str(s).strip()\<close>, so a present value is a string, and
  \<^verbatim>\<open>if row.get(k):\<close> holds exactly for a present, non-empty string.
\<close>

type_synonym row = "string \<rightharpoonup> string"

definition truthy :: "string option \<Rightarrow> bool" where
  "truthy v = (case v of None \<Rightarrow> False | Some s \<Rightarrow> s \<noteq> [])"

subsection \<open>Field parsers\<close>

text \<open>
  \<^verbatim>\<open>\d\<close> on a Python 2 byte string matches the ten ASCII digits.
\<close>

definition is_digit :: "char \<Rightarrow> bool" where
  "is_digit c = (c \<in> set ''0123456789'')"

definition digit_val :: "char \<Rightarrow> nat" where
  "digit_val c = of_char c - 48"

definition nat_of_digits :: "string \<Rightarrow> nat" where
  "nat_of_digits s = foldl (\<lambda>n c. 10 * n + digit_val c) 0 s"

fun bit_length :: "nat \<Rightarrow> nat" where
  "bit_length n = (if n = 0 then 0 else Suc (bit_length (n div 2)))"

declare bit_length.simps [simp del]

text \<open>
  \<^verbatim>\<open>float(s)\<close> on a string of decimal digits is the IEEE double nearest to the
  number, ties to the even mantissa: exact below \<open>2 ^ 53\<close>, a multiple of
  \<open>2 ^ (bit_length n - 53)\<close> above, and infinity (here \<open>None\<close>) from \<open>2 ^ 1024\<close> on.
\<close>

definition float_of_nat :: "nat \<Rightarrow> nat option" where
  "float_of_nat n =
     (if n < 2 ^ 53 then Some n
      else
        let e = bit_length n - 53;
            q = n div 2 ^ e;
            r = n mod 2 ^ e;
            h = 2 ^ (e - 1);
            q' = (if h < r \<or> (r = h \<and> odd q) then q + 1 else q);
            v = q' * 2 ^ e
        in if 2 ^ 1024 \<le> v then None else Some v)"

text \<open>
  What the embedding takes from outside the file under study:
  \<^item> \<open>is_code_valid\<close>: \<^verbatim>\<open>Product.is_code_valid\<close> of \<^verbatim>\<open>olcc/models.py\<close>, a predicate on
    the value of \<^verbatim>\<open>row.get('code')\<close>;
  \<^item> \<open>int_float_other\<close>: \<^verbatim>\<open>int(float(s))\<close> on the strings that are not plain runs of
    digits (signs, decimal points, exponents, \<^verbatim>\<open>inf\<close>, \<^verbatim>\<open>nan\<close>, and the
    \<^verbatim>\<open>ValueError\<close> of everything that is not a number);
  \<^item> \<open>strptime\<close>: \<^verbatim>\<open>datetime.datetime.strptime(s, '%m/%d/%Y')\<close>, whose time of day is
    always midnight, so that only the date is kept.
\<close>

record date =
  year :: int
  month :: int
  day :: int

record env =
  is_code_valid :: "string option \<Rightarrow> bool"
  int_float_other :: "string \<Rightarrow> pyerror + int"
  strptime :: "string \<Rightarrow> pyerror + date"

text \<open>\<^verbatim>\<open>int(float(s))\<close>; \<^verbatim>\<open>int\<close> of an infinite float raises \<^verbatim>\<open>OverflowError\<close>.\<close>

definition int_float :: "env \<Rightarrow> string \<Rightarrow> pyerror + int" where
  "int_float env s =
     (if s \<noteq> [] \<and> list_all is_digit s then
        (case float_of_nat (nat_of_digits s) of
           None \<Rightarrow> Inl OverflowError
         | Some v \<Rightarrow> Inr (int v))
      else int_float_other env s)"

text \<open>
  \<^verbatim>\<open>re.sub('[^0-9\.]', '', s)\<close>: the scan goes through the string from the left and
  replaces each character that the class matches by the empty string.
\<close>

definition price_class :: "char \<Rightarrow> bool" where
  "price_class c = (\<not> (is_digit c \<or> c = CHR ''.''))"

fun re_sub_class :: "(char \<Rightarrow> bool) \<Rightarrow> string \<Rightarrow> string \<Rightarrow> string" where
  "re_sub_class cls repl [] = []"
| "re_sub_class cls repl (c # cs) =
     (if cls c then repl @ re_sub_class cls repl cs else c # re_sub_class cls repl cs)"

definition price_amount :: "string \<Rightarrow> string" where
  "price_amount s = re_sub_class price_class [] s"

text \<open>
  \<^verbatim>\<open>re.search('(\d+) (YRS?|MOS?)', s)\<close>. \<open>age_match_here\<close> is the match anchored at
  the head of its argument: the greedy run of digits (giving a digit back leaves a digit
  where the space must be, so no shorter run can match), one space, then the first
  alternative that fits, each with its optional \<^verbatim>\<open>S\<close> taken when it is there.
  \<open>age_search\<close> tries every start position from the left and returns groups 1 and 2 of
  the first match.
\<close>

definition startswith :: "string \<Rightarrow> string \<Rightarrow> bool" where
  "startswith s p = (take (length p) s = p)"

definition age_unit_here :: "string \<Rightarrow> string option" where
  "age_unit_here s =
     (if startswith s ''YRS'' then Some ''YRS''
      else if startswith s ''YR'' then Some ''YR''
      else if startswith s ''MOS'' then Some ''MOS''
      else if startswith s ''MO'' then Some ''MO''
      else None)"

definition age_match_here :: "string \<Rightarrow> (string \<times> string) option" where
  "age_match_here s =
     (let ds = takeWhile is_digit s; rest = dropWhile is_digit s
      in if ds = [] then None
         else (case rest of
                 [] \<Rightarrow> None
               | c # cs \<Rightarrow>
                   if c = CHR '' '' then
                     (case age_unit_here cs of None \<Rightarrow> None | Some u \<Rightarrow> Some (ds, u))
                   else None))"

fun age_search :: "string \<Rightarrow> (string \<times> string) option" where
  "age_search [] = None"
| "age_search (c # cs) =
     (case age_match_here (c # cs) of
        Some g \<Rightarrow> Some g
      | None \<Rightarrow> age_search cs)"

subsection \<open>Dates\<close>

text \<open>
  \<^verbatim>\<open>datetime.date(y, m, d)\<close> and \<^verbatim>\<open>date.replace\<close>: the arguments are read as C
  ints (\<^verbatim>\<open>OverflowError\<close> beyond), the year must lie between \<^verbatim>\<open>MINYEAR = 1\<close> and
  \<^verbatim>\<open>MAXYEAR = 9999\<close>, the month between 1 and 12 and the day within the month
  (\<^verbatim>\<open>ValueError\<close> otherwise).
\<close>

definition is_leap :: "int \<Rightarrow> bool" where
  "is_leap y = (y mod 4 = 0 \<and> (y mod 100 \<noteq> 0 \<or> y mod 400 = 0))"

definition days_in_month :: "int \<Rightarrow> int \<Rightarrow> int" where
  "days_in_month y m =
     (if m = 2 then (if is_leap y then 29 else 28)
      else if m = 4 \<or> m = 6 \<or> m = 9 \<or> m = 11 then 30
      else 31)"

definition c_int :: "int \<Rightarrow> bool" where
  "c_int n = (- (2 ^ 31) \<le> n \<and> n < 2 ^ 31)"

definition py_date :: "int \<Rightarrow> int \<Rightarrow> int \<Rightarrow> pyerror + date" where
  "py_date y m d =
     (if \<not> (c_int y \<and> c_int m \<and> c_int d) then Inl OverflowError
      else if y < 1 \<or> 9999 < y then Inl ValueError
      else if m < 1 \<or> 12 < m then Inl ValueError
      else if d < 1 \<or> days_in_month y m < d then Inl ValueError
      else Inr \<lparr>year = y, month = m, day = d\<rparr>)"

text \<open>What \<^verbatim>\<open>datetime.date.today()\<close> can return.\<close>

definition valid_date :: "date \<Rightarrow> bool" where
  "valid_date t =
     (1 \<le> year t \<and> year t \<le> 9999 \<and> 1 \<le> month t \<and> month t \<le> 12 \<and>
      1 \<le> day t \<and> day t \<le> days_in_month (year t) (month t))"

text \<open>
  Lines 92 to 99: \<^verbatim>\<open>today.replace(month=today.month+1, day=1)\<close>, and in the handler of
  its \<^verbatim>\<open>ValueError\<close> the roll into January when the month is December. When the
  handler runs in another month it binds nothing, and \<^verbatim>\<open>price_date = next_month\<close>
  reads an unbound local.
\<close>

definition next_month :: "date \<Rightarrow> pyerror + date" where
  "next_month today =
     (case py_date (year today) (month today + 1) 1 of
        Inr d \<Rightarrow> Inr d
      | Inl e \<Rightarrow>
          if e = ValueError then
            (if month today = 12 then py_date (year today + 1) 1 1
             else Inl UnboundLocalError)
          else Inl e)"

text \<open>Lines 85 to 99: the effective date of the new price.\<close>

definition price_date :: "env \<Rightarrow> date \<Rightarrow> row \<Rightarrow> pyerror + date" where
  "price_date env today row =
     (if truthy (row ''price_effective_date'') then
        (case row ''price_effective_date'' of
           None \<Rightarrow> Inl TypeError
         | Some s \<Rightarrow> strptime env s)
      else if truthy (row ''year'') \<and> truthy (row ''month'') then
        (case (row ''year'', row ''month'') of
           (Some ys, Some ms) \<Rightarrow>
             (case int_float env ys of
                Inl e \<Rightarrow> Inl e
              | Inr y \<Rightarrow>
                  (case int_float env ms of
                     Inl e \<Rightarrow> Inl e
                   | Inr m \<Rightarrow> py_date y m 1))
         | _ \<Rightarrow> Inl TypeError)
      else next_month today)"

subsection \<open>The database\<close>

text \<open>
  Modelled from the spec: the models \<^verbatim>\<open>Product\<close> and \<^verbatim>\<open>ProductPrice\<close> of
  \<^verbatim>\<open>olcc/models.py\<close>, which is not among the sources. A Product has the attributes
  the importer assigns (\<open>None\<close> for one that was never assigned); a ProductPrice has
  an amount kept as the normalized string, an effective date and the product that owns
  it; the pair of product and effective date is unique among the prices. The primary key
  of a product is its position in the table.

  \<^verbatim>\<open>product.age\<close> receives either the integer of the months branch or the matched
  string of the years branch.
\<close>

datatype age_value = AgeInt int | AgeStr string

record product =
  code :: "string option"
  title :: "string option"
  status :: "string option"
  size_field :: "string option"
  bottles_per_case :: "int option"
  proof_field :: "string option"
  age :: "age_value option"

record product_price =
  amount :: string
  effective_date :: date
  price_product :: nat

record db =
  products :: "product list"
  prices :: "product_price list"

definition new_product :: "string option \<Rightarrow> product" where
  "new_product c =
     \<lparr>code = c, title = None, status = None, size_field = None,
      bottles_per_case = None, proof_field = None, age = None\<rparr>"

text \<open>
  \<^verbatim>\<open>Product.objects.get_or_create(code=c)\<close>: the one product with that code, a new
  one when there is none, \<^verbatim>\<open>MultipleObjectsReturned\<close> when there are several.
\<close>

definition get_or_create :: "string option \<Rightarrow> db \<Rightarrow> pyerror + (db \<times> nat \<times> bool)" where
  "get_or_create c d =
     (case filter (\<lambda>i. code (products d ! i) = c) [0..<length (products d)] of
        [] \<Rightarrow> Inr (d\<lparr>products := products d @ [new_product c]\<rparr>, length (products d), True)
      | [i] \<Rightarrow> Inr (d, i, False)
      | _ \<Rightarrow> Inl MultipleObjectsReturned)"

definition save :: "nat \<Rightarrow> product \<Rightarrow> db \<Rightarrow> db" where
  "save i p d = d\<lparr>products := (products d)[i := p]\<rparr>"

definition same_key :: "product_price \<Rightarrow> product_price \<Rightarrow> bool" where
  "same_key a b = (price_product a = price_product b \<and> effective_date a = effective_date b)"

definition price_create :: "product_price \<Rightarrow> db \<Rightarrow> pyerror + db" where
  "price_create pp d =
     (if list_ex (same_key pp) (prices d) then Inl IntegrityError
      else Inr (d\<lparr>prices := prices d @ [pp]\<rparr>))"

subsection \<open>product_from_row\<close>

text \<open>Lines 58 to 70: the title of a new product, then the fields that the row has.\<close>

definition update_fields :: "env \<Rightarrow> row \<Rightarrow> bool \<Rightarrow> product \<Rightarrow> pyerror + product" where
  "update_fields env row created p0 =
     (let p1 = (if created then p0\<lparr>title := row ''title''\<rparr> else p0);
          p2 = (if truthy (row ''status'') then p1\<lparr>status := row ''status''\<rparr> else p1);
          p3 = (if truthy (row ''size'') then p2\<lparr>size_field := row ''size''\<rparr> else p2)
      in (case (if truthy (row ''per_case'')
                then (case row ''per_case'' of
                        None \<Rightarrow> Inl TypeError
                      | Some s \<Rightarrow>
                          (case int_float env s of
                             Inl e \<Rightarrow> Inl e
                           | Inr n \<Rightarrow> Inr (p3\<lparr>bottles_per_case := Some n\<rparr>)))
                else Inr p3) of
            Inl e \<Rightarrow> Inl e
          | Inr p4 \<Rightarrow>
              Inr (if truthy (row ''proof'') then p4\<lparr>proof_field := row ''proof''\<rparr> else p4)))"

text \<open>
  Lines 73 to 77. \<^verbatim>\<open>re.search\<close> returns \<^verbatim>\<open>None\<close> when nothing matches, and
  \<^verbatim>\<open>m.group(2)\<close> on \<^verbatim>\<open>None\<close> raises \<^verbatim>\<open>AttributeError\<close>. The division is that of
  two Python 2 integers.
\<close>

definition update_age :: "env \<Rightarrow> string \<Rightarrow> product \<Rightarrow> pyerror + product" where
  "update_age env s p =
     (case age_search s of
        None \<Rightarrow> Inl AttributeError
      | Some (g1, g2) \<Rightarrow>
          if startswith g2 ''MO'' then
            (case int_float env g1 of
               Inl e \<Rightarrow> Inl e
             | Inr n \<Rightarrow> Inr (p\<lparr>age := Some (AgeInt (n div 12))\<rparr>))
          else if startswith g2 ''YR'' then Inr (p\<lparr>age := Some (AgeStr g1)\<rparr>)
          else Inr p)"

text \<open>
  Lines 102 to 109. \<^verbatim>\<open>re.sub\<close> on the \<^verbatim>\<open>None\<close> of an absent price raises
  \<^verbatim>\<open>TypeError\<close>; of the exceptions of the block only \<^verbatim>\<open>IntegrityError\<close> is caught.
\<close>

definition create_price :: "row \<Rightarrow> date \<Rightarrow> nat \<Rightarrow> db \<Rightarrow> pyerror + db" where
  "create_price row pd i d =
     (case row ''price'' of
        None \<Rightarrow> Inl TypeError
      | Some s \<Rightarrow>
          (case price_create \<lparr>amount = price_amount s, effective_date = pd, price_product = i\<rparr> d of
             Inl e \<Rightarrow> if e = IntegrityError then Inr d else Inl e
           | Inr d' \<Rightarrow> Inr d'))"

text \<open>
  Lines 56 to 99: the product found or created, its fields updated from the row, the
  product saved, and the effective date resolved. The result is the database after the
  save, the primary key of the product, the product, the flag of \<^verbatim>\<open>get_or_create\<close>
  and the effective date.
\<close>

definition upsert_product ::
  "env \<Rightarrow> date \<Rightarrow> row \<Rightarrow> db \<Rightarrow> pyerror + (db \<times> nat \<times> product \<times> bool \<times> date)" where
  "upsert_product env today row d =
     (case get_or_create (row ''code'') d of
        Inl e \<Rightarrow> Inl e
      | Inr (d1, i, created) \<Rightarrow>
          (case update_fields env row created (products d1 ! i) of
             Inl e \<Rightarrow> Inl e
           | Inr p \<Rightarrow>
               (case (if truthy (row ''age'')
                      then (case row ''age'' of
                              None \<Rightarrow> Inl TypeError
                            | Some s \<Rightarrow> update_age env s p)
                      else Inr p) of
                  Inl e \<Rightarrow> Inl e
                | Inr p' \<Rightarrow>
                    (case price_date env today row of
                       Inl e \<Rightarrow> Inl e
                     | Inr pd \<Rightarrow> Inr (save i p' d1, i, p', created, pd)))))"

text \<open>
  The whole function, under \<^verbatim>\<open>transaction.commit_on_success\<close>: an exception rolls
  the transaction back, so a result on the left carries no database and the caller goes
  on with the one it had. \<open>today\<close> is the value of \<^verbatim>\<open>datetime.date.today()\<close>. The
  product returned is paired with its primary key.
\<close>

definition product_from_row ::
  "env \<Rightarrow> date \<Rightarrow> row \<Rightarrow> db \<Rightarrow> pyerror + (db \<times> (nat \<times> product) option \<times> bool)" where
  "product_from_row env today row d =
     (if is_code_valid env (row ''code'') then
        (case upsert_product env today row d of
           Inl e \<Rightarrow> Inl e
         | Inr (d1, i, p, created, pd) \<Rightarrow>
             (case create_price row pd i d1 of
                Inl e \<Rightarrow> Inl e
              | Inr d2 \<Rightarrow> Inr (d2, Some (i, p), created)))
      else Inr (d, None, False))"

subsection \<open>import_csv_prices\<close>

text \<open>
  \<^verbatim>\<open>str.strip()\<close> removes the ASCII whitespace at both ends: space, tab, line feed,
  carriage return, vertical tab and form feed.
\<close>

definition is_space :: "char \<Rightarrow> bool" where
  "is_space c = (c \<in> set [CHR '' '', CHR 0x09, CHR 0x0A, CHR 0x0D, CHR 0x0B, CHR 0x0C])"

definition strip :: "string \<Rightarrow> string" where
  "strip s = rev (dropWhile is_space (rev (dropWhile is_space s)))"

definition keys :: "string list" where
  "keys = [''code'', ''status'', ''title'', ''size'', ''age'', ''proof'', ''per_case'',
           ''price'', ''price_effective_date'']"

text \<open>
  \<^verbatim>\<open>dict(zip(ks, vs))\<close>: the pairs are entered from the left, a later pair replacing
  an earlier one with the same key; \<^verbatim>\<open>zip\<close> stops with the shorter list.
\<close>

definition dict_zip :: "string list \<Rightarrow> string list \<Rightarrow> row" where
  "dict_zip ks vs = foldl (\<lambda>m (k, v). m(k \<mapsto> v)) Map.empty (zip ks vs)"

text \<open>Lines 126 to 129 (and 159 to 162 of the spreadsheet importer).\<close>

definition row_of_values :: "string list \<Rightarrow> row" where
  "row_of_values vs = dict_zip keys vs"

text \<open>
  What the command writes: the line of an imported product (its code and title), the
  message of the \<^verbatim>\<open>MultipleObjectsReturned\<close> handler, the summary with the count and
  the hint. \<^verbatim>\<open>uprint\<close> writes unless the command is quiet; the handler uses
  \<^verbatim>\<open>print\<close> and always writes.
\<close>

datatype message =
    Imported "string option" "string option"
  | MultipleResults string
  | Summary nat
  | Hint

definition uprint :: "bool \<Rightarrow> message \<Rightarrow> message list \<Rightarrow> message list" where
  "uprint quiet msg out = (if quiet then out else out @ [msg])"

text \<open>
  The loop of lines 121 to 139 over the rows that the reader yields. Every call of
  \<^verbatim>\<open>product_from_row\<close> is a transaction of its own, so what earlier rows wrote stays
  when a later row raises: the result is the exception that ended the loop, if any,
  with the database, the count and the output reached. \<open>clock n\<close> is the date on
  which row \<open>n\<close> is handled.
\<close>

fun import_rows ::
  "env \<Rightarrow> (nat \<Rightarrow> date) \<Rightarrow> bool \<Rightarrow> nat \<Rightarrow> string list list \<Rightarrow> db \<times> nat \<times> message list \<Rightarrow>
   pyerror option \<times> db \<times> nat \<times> message list" where
  "import_rows env clock quiet n [] st = (None, st)"
| "import_rows env clock quiet n (r # rs) (d, count, out) =
     (if length r = 0 then import_rows env clock quiet (Suc n) rs (d, count, out)
      else
        let obj = row_of_values (map strip r)
        in (case product_from_row env (clock n) obj d of
              Inr (d', Some (i, p), created) \<Rightarrow>
                import_rows env clock quiet (Suc n) rs
                  (d', count + 1, uprint quiet (Imported (code p) (title p)) out)
            | Inr (d', None, created) \<Rightarrow>
                import_rows env clock quiet (Suc n) rs (d', count, out)
            | Inl e \<Rightarrow>
                if e = MultipleObjectsReturned then
                  (case obj ''code'' of
                     None \<Rightarrow> (Some KeyError, d, count, out)
                   | Some c \<Rightarrow>
                       import_rows env clock quiet (Suc n) rs (d, count, out @ [MultipleResults c]))
                else (Some e, d, count, out)))"

definition import_csv_prices ::
  "env \<Rightarrow> (nat \<Rightarrow> date) \<Rightarrow> bool \<Rightarrow> string list list \<Rightarrow> db \<Rightarrow>
   pyerror option \<times> db \<times> nat \<times> message list" where
  "import_csv_prices env clock quiet csvreader d =
     (case import_rows env clock quiet 0 csvreader (d, 0, []) of
        (Some e, st) \<Rightarrow> (Some e, st)
      | (None, d', count, out) \<Rightarrow>
          (let out1 = uprint quiet (Summary count) out
           in (None, d', count, if count < 1 then uprint quiet Hint out1 else out1)))"

subsection \<open>The options and import_stores\<close>

text \<open>
  The option list of lines 24 to 32 as \<^verbatim>\<open>optparse\<close> reads it from the command line,
  spelled out in full: a \<^verbatim>\<open>store_true\<close> option sets its destination to \<open>True\<close>
  when it occurs, and a destination keeps its default when its option does not occur.
  The defaults are \<open>False\<close> for \<^verbatim>\<open>quiet\<close>, \<^verbatim>\<open>'prices'\<close> for
  \<^verbatim>\<open>import_type\<close> and \<open>True\<close> for \<^verbatim>\<open>geocode\<close>. A value of
  \<^verbatim>\<open>--import-type\<close> outside \<^verbatim>\<open>IMPORT_TYPES\<close>, or none, ends the program
  (\<open>None\<close>). Every other word is a positional argument.
\<close>

record options =
  quiet :: bool
  import_type :: string
  geocode :: bool
  args :: "string list"

definition IMPORT_TYPES :: "string list" where
  "IMPORT_TYPES = [''csv_prices'', ''prices'', ''stores'']"

definition default_options :: options where
  "default_options = \<lparr>quiet = False, import_type = ''prices'', geocode = True, args = []\<rparr>"

fun parse_args :: "string list \<Rightarrow> options \<Rightarrow> options option" where
  "parse_args [] opts = Some opts"
| "parse_args (a # rest) opts =
     (if a = ''--quiet'' then parse_args rest (opts\<lparr>quiet := True\<rparr>)
      else if a = ''--geocode'' then parse_args rest (opts\<lparr>geocode := True\<rparr>)
      else if a = ''--import-type'' then
        (case rest of
           [] \<Rightarrow> None
         | v # rest' \<Rightarrow>
             if v \<in> set IMPORT_TYPES then parse_args rest' (opts\<lparr>import_type := v\<rparr>)
             else None)
      else if startswith a ''--import-type='' then
        (let v = drop (length ''--import-type='') a
         in if v \<in> set IMPORT_TYPES then parse_args rest (opts\<lparr>import_type := v\<rparr>)
            else None)
      else parse_args rest (opts\<lparr>args := args opts @ [a]\<rparr>))"

definition command_line :: "string list \<Rightarrow> options option" where
  "command_line argv = parse_args argv default_options"

text \<open>
  Modelled from the spec: the model \<^verbatim>\<open>Store\<close> of \<^verbatim>\<open>olcc/models.py\<close>, which is not
  among the sources: a key, the raw address, and the resolved address with its
  coordinates once geocoded. The coordinates are kept in a type \<open>'f\<close> of floats.
\<close>

record 'f store =
  key :: string
  address_raw :: string
  address :: "string option"
  latitude :: "'f option"
  longitude :: "'f option"

text \<open>
  What \<^verbatim>\<open>import_stores\<close> takes from outside: whether a cell value is an
  \<^verbatim>\<open>int\<close>, \<^verbatim>\<open>long\<close> or \<^verbatim>\<open>float\<close>, \<^verbatim>\<open>Store.from_row\<close>, and the geocoder,
  which returns an address and a position or raises.
\<close>

record ('c, 'f) store_env =
  is_number :: "'c \<Rightarrow> bool"
  from_row :: "'c list \<Rightarrow> 'f store"
  geocoder :: "string \<Rightarrow> pyerror + (string \<times> 'f \<times> 'f)"

text \<open>
  The state of a store import: the stores saved, the addresses sent to the geocoder in
  order, the number of pauses taken and the stores printed.
\<close>

record 'f store_state =
  saved :: "'f store list"
  geocoded :: "string list"
  pauses :: nat
  printed :: "'f store list"

text \<open>
  Lines 187 to 211. The geocoder is called only under \<^verbatim>\<open>if self.geocode:\<close>; of its
  exceptions only \<^verbatim>\<open>ValueError\<close> is caught, and the pause follows the call whether
  it was caught or not. \<^verbatim>\<open>values[0]\<close> raises \<^verbatim>\<open>IndexError\<close> on an empty row.
\<close>

fun import_stores ::
  "('c, 'f) store_env \<Rightarrow> bool \<Rightarrow> bool \<Rightarrow> 'c list list \<Rightarrow> 'f store_state \<Rightarrow>
   pyerror option \<times> 'f store_state" where
  "import_stores w geo q [] st = (None, st)"
| "import_stores w geo q (values # rest) st =
     (case values of
        [] \<Rightarrow> (Some IndexError, st)
      | store_key # _ \<Rightarrow>
          if is_number w store_key then
            (let store = from_row w values
             in if geo then
                  (let st1 = st\<lparr>geocoded := geocoded st @ [address_raw store]\<rparr>
                   in (case geocoder w (address_raw store) of
                         Inr (a, lat, lon) \<Rightarrow>
                           (let store' = store\<lparr>address := Some (strip a), latitude := Some lat,
                                                 longitude := Some lon\<rparr>
                            in import_stores w geo q rest
                                 (st1\<lparr>saved := saved st1 @ [store'], pauses := pauses st1 + 1,
                                       printed := (if q then printed st1 else printed st1 @ [store'])\<rparr>))
                       | Inl e \<Rightarrow>
                           if e = ValueError then
                             import_stores w geo q rest
                               (st1\<lparr>pauses := pauses st1 + 1,
                                     printed := (if q then printed st1 else printed st1 @ [store])\<rparr>)
                           else (Some e, st1)))
                else
                  import_stores w geo q rest
                    (st\<lparr>printed := (if q then printed st else printed st @ [store])\<rparr>))
          else import_stores w geo q rest st)"

text \<open>
  Lines 214 to 216 and the call of line 239 for the import type \<^verbatim>\<open>stores\<close>: the
  command takes \<^verbatim>\<open>quiet\<close> and \<^verbatim>\<open>geocode\<close> from the options and imports the sheet.
\<close>

definition handle_stores ::
  "('c, 'f) store_env \<Rightarrow> options \<Rightarrow> 'c list list \<Rightarrow> pyerror option \<times> 'f store_state" where
  "handle_stores w opts sheet =
     import_stores w (geocode opts) (quiet opts) sheet
       \<lparr>saved = [], geocoded = [], pauses = 0, printed = []\<rparr>"

subsection \<open>Sample inputs\<close>

text \<open>
  A sample environment and sample rows, on which the theorems below are instantiated.
  The sample code predicate accepts four digits followed by one more character.
\<close>

definition sample_env :: env where
  "sample_env =
     \<lparr>is_code_valid =
        (\<lambda>c. case c of None \<Rightarrow> False
                 | Some s \<Rightarrow> length s = 5 \<and> list_all is_digit (take 4 s)),
      int_float_other = (\<lambda>s. Inl ValueError),
      strptime = (\<lambda>s. Inl ValueError)\<rparr>"

definition sample_today :: date where
  "sample_today = \<lparr>year = 2012, month = 12, day = 31\<rparr>"

definition empty_db :: db where
  "empty_db = \<lparr>products = [], prices = []\<rparr>"

definition header_row :: row where
  "header_row = [''code'' \<mapsto> ''Item Code'', ''title'' \<mapsto> ''Description'']"

definition unmatched_age_row :: row where
  "unmatched_age_row =
     [''code'' \<mapsto> ''0102B'', ''title'' \<mapsto> ''GIN'', ''age'' \<mapsto> ''N/A'', ''price'' \<mapsto> ''12.50'']"

definition dateless_row :: row where
  "dateless_row = [''code'' \<mapsto> ''0102B'', ''title'' \<mapsto> ''GIN'', ''price'' \<mapsto> ''12.50'']"

definition last_december :: date where
  "last_december = \<lparr>year = 9999, month = 12, day = 31\<rparr>"

definition short_row :: "string list" where
  "short_row = [''0102B'', ''A'', ''GIN'', ''750 ML'', ''N/A'']"

definition gin_row :: row where
  "gin_row = [''code'' \<mapsto> ''0102B'', ''title'' \<mapsto> ''GIN'', ''age'' \<mapsto> ''18 MOS'',
              ''price'' \<mapsto> ''$12.50'', ''price_effective_date'' \<mapsto> ''01/01/2013'']"

definition vodka_row :: row where
  "vodka_row = [''code'' \<mapsto> ''0102B'', ''title'' \<mapsto> ''VODKA'', ''age'' \<mapsto> ''2 YRS'',
                ''price'' \<mapsto> ''$13.00'', ''price_effective_date'' \<mapsto> ''01/01/2013'']"

text \<open>A sample environment that reads the one date \<^verbatim>\<open>01/01/2013\<close>.\<close>

definition dated_env :: env where
  "dated_env =
     sample_env\<lparr>strptime :=
       (\<lambda>s. if s = ''01/01/2013'' then Inr \<lparr>year = 2013, month = 1, day = 1\<rparr>
            else Inl ValueError)\<rparr>"

text \<open>Sample cells of a sheet, a sample store importer and a sample sheet.\<close>

datatype cell = Number int | Text string

definition sample_store_env :: "(cell, int) store_env" where
  "sample_store_env =
     \<lparr>is_number = (\<lambda>c. case c of Number _ \<Rightarrow> True | Text _ \<Rightarrow> False),
      from_row =
        (\<lambda>vs. \<lparr>key = ''42'',
               address_raw = (case vs of [_, Text a] \<Rightarrow> a | _ \<Rightarrow> []),
               address = None, latitude = None, longitude = None\<rparr>),
      geocoder = (\<lambda>a. Inr (a, 45, - 122))\<rparr>"

definition sample_sheet :: "cell list list" where
  "sample_sheet = [[Text ''Store Key'', Text ''Address''], [Number 42, Text ''1 Main St'']]"

section \<open>Properties\<close>

subsection \<open>The price amount parser\<close>

lemma re_sub_class_filter: "re_sub_class cls [] s = filter (\<lambda>c. \<not> cls c) s"
  by (induction s) simp_all

text \<open>
  C6. For every raw price string, the price amount parser returns the string with every
  character removed except digits and dots, in their order and without any validation:
  \<^verbatim>\<open>"$12,34.56 "\<close> yields \<^verbatim>\<open>"1234.56"\<close>, and a string with several dots keeps them
  all.
\<close>

theorem price_amount_strips:
  "price_amount s = filter (\<lambda>c. is_digit c \<or> c = CHR ''.'') s \<and>
   price_amount ''$12,34.56 '' = ''1234.56'' \<and>
   price_amount ''1.2.3'' = ''1.2.3''"
  by (simp add: price_amount_def re_sub_class_filter price_class_def is_digit_def)

subsection \<open>Rows with an invalid code\<close>

text \<open>
  C1. For every row whose code fails the validity predicate, \<^verbatim>\<open>product_from_row\<close>
  returns no product and the flag \<open>False\<close> without raising, and the database it leaves
  is the one it found: no Product and no ProductPrice is created or modified.
\<close>

theorem invalid_code_skipped:
  "\<not> is_code_valid env (row ''code'') \<Longrightarrow>
   product_from_row env today row d = Inr (d, None, False)"
  by (simp add: product_from_row_def)

theorem invalid_code_skipped_witness:
  "\<not> is_code_valid sample_env (header_row ''code'') \<and>
   product_from_row sample_env sample_today header_row empty_db = Inr (empty_db, None, False)"
proof -
  have h: "\<not> is_code_valid sample_env (header_row ''code'')"
    by (simp add: sample_env_def header_row_def)
  show ?thesis
    using h invalid_code_skipped [of sample_env header_row sample_today empty_db] by simp
qed

subsection \<open>The age parser\<close>

lemma age_unit_here_cases:
  "age_unit_here s = Some u \<Longrightarrow> u = ''YRS'' \<or> u = ''YR'' \<or> u = ''MOS'' \<or> u = ''MO''"
  by (auto simp: age_unit_here_def split: if_splits)

lemma age_match_here_Some:
  "age_match_here s = Some (n, u) \<Longrightarrow>
   n \<noteq> [] \<and> list_all is_digit n \<and> (u = ''YRS'' \<or> u = ''YR'' \<or> u = ''MOS'' \<or> u = ''MO'')"
  by (auto simp: age_match_here_def Let_def list_all_iff
      split: if_splits list.splits option.splits
      dest: age_unit_here_cases set_takeWhileD)

lemma age_search_Some:
  "age_search s = Some (n, u) \<Longrightarrow>
   n \<noteq> [] \<and> list_all is_digit n \<and> (u = ''YRS'' \<or> u = ''YR'' \<or> u = ''MOS'' \<or> u = ''MO'')"
proof (induction s)
  case Nil
  then show ?case by simp
next
  case (Cons c cs)
  show ?case
  proof (cases "age_match_here (c # cs)")
    case None
    with Cons show ?thesis by simp
  next
    case (Some g)
    with Cons.prems have "age_match_here (c # cs) = Some (n, u)" by simp
    then show ?thesis by (rule age_match_here_Some)
  qed
qed

lemma int_float_digits:
  "n \<noteq> [] \<Longrightarrow> list_all is_digit n \<Longrightarrow> nat_of_digits n < 2 ^ 53 \<Longrightarrow>
   int_float env n = Inr (int (nat_of_digits n))"
  by (simp add: int_float_def float_of_nat_def)

lemma age_search_exact:
  assumes "ds \<noteq> []" "list_all is_digit ds" "u = ''YRS'' \<or> u = ''YR'' \<or> u = ''MOS'' \<or> u = ''MO''"
  shows "age_search (ds @ '' '' @ u) = Some (ds, u)"
proof -
  have nd: "\<not> is_digit CHR '' ''" by (simp add: is_digit_def)
  have tw: "takeWhile is_digit (ds @ CHR '' '' # u) = ds"
    using assms(2) nd by (simp add: takeWhile_append2 list_all_iff)
  have dw: "dropWhile is_digit (ds @ CHR '' '' # u) = CHR '' '' # u"
    using assms(2) nd by (simp add: dropWhile_append2 list_all_iff)
  have un: "age_unit_here u = Some u"
    using assms(3) by (auto simp: age_unit_here_def startswith_def)
  have "age_match_here (ds @ CHR '' '' # u) = Some (ds, u)"
    using assms(1) tw dw un by (simp add: age_match_here_def)
  moreover obtain c cs where "ds = c # cs" using assms(1) by (cases ds) auto
  ultimately show ?thesis by simp
qed

text \<open>
  C3, as amended. Let the search of the pattern in the age string succeed with the
  number \<open>n\<close> and the unit \<open>u\<close> as its groups. When the unit is \<^verbatim>\<open>MO\<close> or
  \<^verbatim>\<open>MOS\<close> and the number is below \<open>2 ^ 53\<close>, the age becomes the integer quotient of
  the number by 12 (so \<^verbatim>\<open>"18 MOS"\<close> yields 1). When the unit is \<^verbatim>\<open>YR\<close> or
  \<^verbatim>\<open>YRS\<close>, the age becomes the matched digits as a string, unconverted (so
  \<^verbatim>\<open>"12 YRS"\<close> yields \<^verbatim>\<open>"12"\<close>).
\<close>

theorem age_conversion:
  "age_search s = Some (n, u) \<Longrightarrow>
   (startswith u ''MO'' \<longrightarrow> nat_of_digits n < 2 ^ 53 \<longrightarrow>
      update_age env s p = Inr (p\<lparr>age := Some (AgeInt (int (nat_of_digits n) div 12))\<rparr>)) \<and>
   (startswith u ''YR'' \<longrightarrow> update_age env s p = Inr (p\<lparr>age := Some (AgeStr n)\<rparr>))"
proof -
  assume m: "age_search s = Some (n, u)"
  from age_search_Some [OF m]
  have n: "n \<noteq> []" "list_all is_digit n"
    and u: "u = ''YRS'' \<or> u = ''YR'' \<or> u = ''MOS'' \<or> u = ''MO''" by simp_all
  have mo: "update_age env s p = Inr (p\<lparr>age := Some (AgeInt (int (nat_of_digits n) div 12))\<rparr>)"
    if "startswith u ''MO''" "nat_of_digits n < 2 ^ 53"
    using that m int_float_digits [OF n, of env] by (simp add: update_age_def)
  have yr: "update_age env s p = Inr (p\<lparr>age := Some (AgeStr n)\<rparr>)" if "startswith u ''YR''"
    using that m u by (auto simp: update_age_def startswith_def)
  from mo yr show ?thesis by blast
qed

theorem age_conversion_witness:
  "age_search ''18 MOS'' = Some (''18'', ''MOS'') \<and>
   update_age sample_env ''18 MOS'' (new_product None) =
     Inr ((new_product None)\<lparr>age := Some (AgeInt 1)\<rparr>) \<and>
   age_search ''12 YRS'' = Some (''12'', ''YRS'') \<and>
   update_age sample_env ''12 YRS'' (new_product None) =
     Inr ((new_product None)\<lparr>age := Some (AgeStr ''12'')\<rparr>)"
proof -
  have m: "age_search ''18 MOS'' = Some (''18'', ''MOS'')"
    by (simp add: age_match_here_def age_unit_here_def startswith_def is_digit_def)
  have y: "age_search ''12 YRS'' = Some (''12'', ''YRS'')"
    by (simp add: age_match_here_def age_unit_here_def startswith_def is_digit_def)
  have n: "nat_of_digits ''18'' = 18"
    by (simp add: nat_of_digits_def digit_val_def)
  show ?thesis
    using m y n
      age_conversion [OF m, of sample_env "new_product None"]
      age_conversion [OF y, of sample_env "new_product None"]
    by (simp add: startswith_def)
qed

text \<open>
  From \<open>2 ^ 53\<close> on the conversion through \<^verbatim>\<open>float\<close> rounds: 9007199254740995 months
  become 750599937895083 years, where the quotient by 12 is 750599937895082.
\<close>

theorem age_conversion_counterexample:
  "age_search ''9007199254740995 MOS'' = Some (''9007199254740995'', ''MOS'') \<and>
   update_age sample_env ''9007199254740995 MOS'' (new_product None) =
     Inr ((new_product None)\<lparr>age := Some (AgeInt 750599937895083)\<rparr>) \<and>
   int (nat_of_digits ''9007199254740995'') div 12 = 750599937895082"
proof -
  have m: "age_search ''9007199254740995 MOS'' = Some (''9007199254740995'', ''MOS'')"
    by (simp add: age_match_here_def age_unit_here_def startswith_def is_digit_def)
  have n: "nat_of_digits ''9007199254740995'' = 9007199254740995"
    by (simp add: nat_of_digits_def digit_val_def)
  have f: "float_of_nat 9007199254740995 = Some 9007199254740996"
    by (simp add: float_of_nat_def bit_length.simps)
  have i: "int_float sample_env ''9007199254740995'' = Inr 9007199254740996"
    using n f by (simp add: int_float_def is_digit_def)
  show ?thesis
    using m n i by (simp add: update_age_def startswith_def)
qed

text \<open>
  C7. For every non-empty age string in which the pattern is not found, the claim is that
  no age is set, nothing is raised and the row goes on. What the code does: the
  assignment of the age raises \<^verbatim>\<open>AttributeError\<close>, and \<^verbatim>\<open>product_from_row\<close> on a
  row with a valid code and such an age never returns a result.
\<close>

theorem age_without_match_raises:
  "is_code_valid env (row ''code'') \<Longrightarrow> row ''age'' = Some s \<Longrightarrow> s \<noteq> [] \<Longrightarrow> age_search s = None \<Longrightarrow>
   update_age env s p = Inl AttributeError \<and> (\<forall>res. product_from_row env today row d \<noteq> Inr res)"
  by (auto simp: update_age_def product_from_row_def upsert_product_def truthy_def
      split: sum.splits prod.splits)

theorem age_without_match_raises_witness:
  "is_code_valid sample_env (unmatched_age_row ''code'') \<and>
   unmatched_age_row ''age'' = Some ''N/A'' \<and> age_search ''N/A'' = None \<and>
   update_age sample_env ''N/A'' (new_product None) = Inl AttributeError \<and>
   product_from_row sample_env sample_today unmatched_age_row empty_db = Inl AttributeError"
proof -
  have c: "is_code_valid sample_env (unmatched_age_row ''code'')"
    by (simp add: sample_env_def unmatched_age_row_def is_digit_def)
  have a: "unmatched_age_row ''age'' = Some ''N/A''"
    by (simp add: unmatched_age_row_def)
  have s: "age_search ''N/A'' = None"
    by (simp add: age_match_here_def is_digit_def)
  have u: "update_age sample_env ''N/A'' (new_product None) = Inl AttributeError"
    using age_without_match_raises [OF c a _ s, of "new_product None" sample_today empty_db]
    by simp
  have g: "get_or_create (Some ''0102B'') empty_db =
             Inr (\<lparr>products = [new_product (Some ''0102B'')], prices = []\<rparr>, 0, True)"
    by (simp add: get_or_create_def empty_db_def)
  have k: "unmatched_age_row ''code'' = Some ''0102B''"
    by (simp add: unmatched_age_row_def)
  have f: "update_fields sample_env unmatched_age_row True (new_product (Some ''0102B'')) =
             Inr ((new_product (Some ''0102B''))\<lparr>title := Some ''GIN''\<rparr>)"
    by (simp add: update_fields_def unmatched_age_row_def truthy_def)
  have p: "product_from_row sample_env sample_today unmatched_age_row empty_db = Inl AttributeError"
    using c a k g f s
    by (simp add: product_from_row_def upsert_product_def truthy_def update_age_def)
  from c a s u p show ?thesis by simp
qed

subsection \<open>The effective date\<close>

lemma py_date_first:
  "1 \<le> y \<Longrightarrow> y \<le> 9999 \<Longrightarrow> 1 \<le> m \<Longrightarrow> m \<le> 12 \<Longrightarrow>
   py_date y m 1 = Inr \<lparr>year = y, month = m, day = 1\<rparr>"
  by (auto simp: py_date_def c_int_def days_in_month_def)

lemma py_date_month13: "1 \<le> y \<Longrightarrow> y \<le> 9999 \<Longrightarrow> py_date y 13 1 = Inl ValueError"
  by (simp add: py_date_def c_int_def)

lemma next_month_valid:
  assumes "valid_date today" "\<not> (year today = 9999 \<and> month today = 12)"
  shows "next_month today =
     Inr (if month today = 12 then \<lparr>year = year today + 1, month = 1, day = 1\<rparr>
          else \<lparr>year = year today, month = month today + 1, day = 1\<rparr>)"
proof (cases "month today = 12")
  case True
  with assms have y: "1 \<le> year today" "year today \<le> 9998" by (auto simp: valid_date_def)
  with True show ?thesis
    by (simp add: next_month_def py_date_month13 py_date_first)
next
  case False
  with assms have "1 \<le> year today" "year today \<le> 9999" "1 \<le> month today + 1" "month today + 1 \<le> 12"
    by (auto simp: valid_date_def)
  then have "py_date (year today) (month today + 1) 1 = Inr \<lparr>year = year today, month = month today + 1, day = 1\<rparr>"
    by (rule py_date_first)
  with False show ?thesis by (simp add: next_month_def)
qed

text \<open>
  C5, as amended. For every row without a price effective date and without both a year
  and a month, and every current date before December 9999, the resolved effective date
  is the first day of the calendar month after the current date; when the current month
  is December, it is January 1 of the next year.
\<close>

theorem default_effective_date:
  "\<not> truthy (row ''price_effective_date'') \<Longrightarrow>
   \<not> (truthy (row ''year'') \<and> truthy (row ''month'')) \<Longrightarrow>
   valid_date today \<Longrightarrow> \<not> (year today = 9999 \<and> month today = 12) \<Longrightarrow>
   price_date env today row =
     Inr (if month today = 12 then \<lparr>year = year today + 1, month = 1, day = 1\<rparr>
          else \<lparr>year = year today, month = month today + 1, day = 1\<rparr>)"
proof -
  assume a: "\<not> truthy (row ''price_effective_date'')"
    and b: "\<not> (truthy (row ''year'') \<and> truthy (row ''month''))"
    and c: "valid_date today" and d: "\<not> (year today = 9999 \<and> month today = 12)"
  from a b have "price_date env today row = next_month today"
    by (simp only: price_date_def if_False)
  with next_month_valid [OF c d] show ?thesis by simp
qed

theorem default_effective_date_witness:
  "\<not> truthy (dateless_row ''price_effective_date'') \<and>
   \<not> (truthy (dateless_row ''year'') \<and> truthy (dateless_row ''month'')) \<and>
   valid_date sample_today \<and> \<not> (year sample_today = 9999 \<and> month sample_today = 12) \<and>
   price_date sample_env sample_today dateless_row = Inr \<lparr>year = 2013, month = 1, day = 1\<rparr>"
proof -
  have a: "\<not> truthy (dateless_row ''price_effective_date'')"
    by (simp add: dateless_row_def truthy_def)
  have b: "\<not> (truthy (dateless_row ''year'') \<and> truthy (dateless_row ''month''))"
    by (simp add: dateless_row_def truthy_def)
  have c: "valid_date sample_today"
    by (simp add: valid_date_def sample_today_def days_in_month_def)
  have d: "\<not> (year sample_today = 9999 \<and> month sample_today = 12)"
    by (simp add: sample_today_def)
  show ?thesis
    using a b c d default_effective_date [OF a b c d, of sample_env]
    by (simp add: sample_today_def)
qed

text \<open>
  In December of the year 9999 a valid current date has no next month among the dates:
  the roll into January raises \<^verbatim>\<open>ValueError\<close>.
\<close>

theorem default_effective_date_counterexample:
  "valid_date last_december \<and> dateless_row ''price_effective_date'' = None \<and>
   dateless_row ''year'' = None \<and> dateless_row ''month'' = None \<and>
   price_date sample_env last_december dateless_row = Inl ValueError"
  by (simp add: valid_date_def last_december_def days_in_month_def dateless_row_def
      price_date_def truthy_def next_month_def py_date_def c_int_def)

lemma foldl_upd_other:
  "k \<notin> set ks \<Longrightarrow> foldl (\<lambda>m (k, v). m(k \<mapsto> v)) m0 (zip ks vs) k = m0 k"
proof (induction ks arbitrary: vs m0)
  case Nil
  then show ?case by simp
next
  case (Cons a ks)
  then show ?case by (cases vs) auto
qed

lemma dict_zip_absent: "k \<notin> set ks \<Longrightarrow> dict_zip ks vs k = None"
  by (simp add: dict_zip_def foldl_upd_other)

text \<open>
  C9. For every row mapping that the price importers build by zipping the fixed key list
  with the row values, the keys \<^verbatim>\<open>year\<close> and \<^verbatim>\<open>month\<close> are absent, so the
  effective date is the parsed \<^verbatim>\<open>price_effective_date\<close> when that is non-empty and
  the first of next month otherwise: the branch of year and month is never taken.
\<close>

theorem year_month_never_populated:
  "row_of_values vs ''year'' = None \<and> row_of_values vs ''month'' = None \<and>
   price_date env today (row_of_values vs) =
     (case row_of_values vs ''price_effective_date'' of
        None \<Rightarrow> next_month today
      | Some s \<Rightarrow> if s = [] then next_month today else strptime env s)"
proof -
  have y: "row_of_values vs ''year'' = None"
    unfolding row_of_values_def by (rule dict_zip_absent) (simp add: keys_def)
  have m: "row_of_values vs ''month'' = None"
    unfolding row_of_values_def by (rule dict_zip_absent) (simp add: keys_def)
  show ?thesis
    using y m by (simp add: price_date_def truthy_def split: option.splits)
qed

end
